theory Spec2Isabelle
  imports Main
begin

section \<open>The parsed translation unit as the scripts see it\<close>

text \<open>
  The scripts never parse C themselves: they query libclang cursors. A cursor is modelled
  with exactly the attributes the scripts read: \<open>kind\<close>, \<open>spelling\<close>, \<open>is_definition()\<close>,
  \<open>type\<close>, \<open>result_type\<close>, \<open>referenced\<close> and \<open>get_children()\<close>.
\<close>

datatype CursorKind =
    TRANSLATION_UNIT | FUNCTION_DECL | VAR_DECL | PARM_DECL
  | CALL_EXPR | DECL_REF_EXPR | COMPOUND_STMT | UNEXPOSED_EXPR | BINARY_OPERATOR

datatype TypeKind =
    INVALID | VOID | INT_TYPE | CHAR_S | POINTER | FUNCTIONPROTO | FUNCTIONNOPROTO | TYPEDEF | RECORD

text \<open>
  A \<open>clang.cindex.Type\<close>: its spelling, its kind, \<open>is_const_qualified()\<close>,
  \<open>is_function_variadic()\<close> and \<open>get_pointee()\<close>.
\<close>

datatype ctype =
  CType (type_spelling: string) (type_kind: TypeKind) (is_const_qualified: bool)
        (is_function_variadic: bool) (pointee: "ctype option")

text \<open>\<open>get_pointee()\<close> of a type that has no pointee is libclang's invalid type.\<close>

definition invalid_type :: ctype where
  "invalid_type = CType [] INVALID False False None"

definition get_pointee :: "ctype \<Rightarrow> ctype" where
  "get_pointee t = (case pointee t of Some p \<Rightarrow> p | None \<Rightarrow> invalid_type)"

text \<open>
  The declaration a \<open>DECL_REF_EXPR\<close> resolves to (\<open>child.referenced\<close>), with the attributes
  the usage analyzer reads from it: \<open>referenced.kind\<close>, \<open>referenced.spelling\<close>,
  \<open>referenced.semantic_parent.kind\<close>, \<open>referenced.type.is_const_qualified()\<close> and
  \<open>referenced.is_definition()\<close>.
\<close>

datatype referenced_decl =
  Referenced (ref_kind: CursorKind) (ref_spelling: string) (ref_semantic_parent_kind: CursorKind)
             (ref_type_is_const_qualified: bool) (ref_is_definition: bool)

text \<open>
  A cursor. \<open>referenced\<close> is read by the scripts only on a \<open>DECL_REF_EXPR\<close>, where the front end
  always resolves it; on any other cursor the field carries no information.
\<close>

datatype cursor =
  Cursor (kind: CursorKind) (spelling: string) (is_definition: bool)
         (cursor_type: ctype) (result_type: ctype) (referenced: referenced_decl)
         (get_children: "cursor list")

text \<open>\<open>Cursor.walk_preorder()\<close>: the cursor itself, then the preorder walk of each child.\<close>

fun walk_preorder :: "cursor \<Rightarrow> cursor list" where
  "walk_preorder (Cursor k s d t r ref cs) =
     Cursor k s d t r ref cs # concat (map walk_preorder cs)"

text \<open>
  What lies outside the scripts: \<open>os.path.exists\<close> and \<open>index.parse\<close>. A parse whose result
  is falsy (\<open>if not tu\<close>) is \<open>None\<close>.
\<close>

record frontend =
  path_exists :: "string \<Rightarrow> bool"
  parse :: "string \<Rightarrow> cursor option"

section \<open>Entrypoint detection (find\_entrypoints.py)\<close>

text \<open>The inner loop: the call expressions of one caller whose name is in the list.\<close>

definition add_callees_of :: "string list \<Rightarrow> cursor \<Rightarrow> string set \<Rightarrow> string set" where
  "add_callees_of function_names cursor callees =
     fold (\<lambda>child callees.
             if kind child = CALL_EXPR then
               (let callee_name = spelling child in
                if callee_name \<in> set function_names then insert callee_name callees
                else callees)
             else callees)
          (walk_preorder cursor) callees"

text \<open>The outer loop over every cursor of the unit.\<close>

definition collect_callees :: "string list \<Rightarrow> cursor \<Rightarrow> string set" where
  "collect_callees function_names tu =
     fold (\<lambda>cursor callees.
             if kind cursor = FUNCTION_DECL \<and> is_definition cursor then
               (let caller_name = spelling cursor in
                if caller_name \<in> set function_names
                then add_callees_of function_names cursor callees
                else callees)
             else callees)
          (walk_preorder tu) {}"

definition find_entrypoints :: "frontend \<Rightarrow> string \<Rightarrow> string list \<Rightarrow> string set" where
  "find_entrypoints fe preprocessed_file_path function_names =
     (if \<not> path_exists fe preprocessed_file_path then {}
      else case parse fe preprocessed_file_path of
             None \<Rightarrow> {}
           | Some tu \<Rightarrow> set function_names - collect_callees function_names tu)"

text \<open>
  The specification's wording of the callee set, to compare the loops with: the names of
  \<open>F\<close> that are the target of a call expression inside some function defined in the unit
  whose own name is in \<open>F\<close> (one hop, no closure).
\<close>

definition one_hop_callees :: "cursor \<Rightarrow> string set \<Rightarrow> string set" where
  "one_hop_callees tu F =
     {n \<in> F. \<exists>c \<in> set (walk_preorder tu).
                kind c = FUNCTION_DECL \<and> is_definition c \<and> spelling c \<in> F \<and>
                (\<exists>e \<in> set (walk_preorder c). kind e = CALL_EXPR \<and> spelling e = n)}"

subsection \<open>Building example units\<close>

definition void_type :: ctype where
  "void_type = CType ''void'' VOID False False None"

definition int_type :: ctype where
  "int_type = CType ''int'' INT_TYPE False False None"

definition no_reference :: referenced_decl where
  "no_reference = Referenced UNEXPOSED_EXPR [] UNEXPOSED_EXPR False False"

definition call_expr :: "string \<Rightarrow> cursor" where
  "call_expr n = Cursor CALL_EXPR n False int_type invalid_type no_reference []"

definition compound_stmt :: "cursor list \<Rightarrow> cursor" where
  "compound_stmt cs = Cursor COMPOUND_STMT [] False invalid_type invalid_type no_reference cs"

definition function_def :: "ctype \<Rightarrow> string \<Rightarrow> cursor list \<Rightarrow> cursor list \<Rightarrow> cursor" where
  "function_def rt n params body =
     Cursor FUNCTION_DECL n True (CType [] FUNCTIONPROTO False False None) rt no_reference
            (params @ [compound_stmt body])"

definition translation_unit :: "cursor list \<Rightarrow> cursor" where
  "translation_unit cs =
     Cursor TRANSLATION_UNIT [] False invalid_type invalid_type no_reference cs"

definition parsed :: "cursor \<Rightarrow> frontend" where
  "parsed tu = \<lparr>path_exists = (\<lambda>_. True), parse = (\<lambda>_. Some tu)\<rparr>"

text \<open>The unit of the script's own self-test: bar, foo, main, standalone, baz.\<close>

definition selftest_unit :: cursor where
  "selftest_unit = translation_unit
     [function_def void_type ''bar'' [] [],
      function_def void_type ''foo'' [] [call_expr ''bar''],
      function_def void_type ''main'' [] [call_expr ''foo''],
      function_def void_type ''standalone'' [] [],
      function_def void_type ''baz'' [] [call_expr ''standalone'']]"

section \<open>Usage analysis (find\_globals\_and\_externs.py, standalone\_driver\_gen.py)\<close>

text \<open>The dictionary with the two keys \<open>'global_vars'\<close> and \<open>'external_funcs'\<close>.\<close>

record usage =
  global_vars :: "string set"
  external_funcs :: "string set"

text \<open>
  The test for a global variable in find\_globals\_and\_externs.py: a variable declaration
  whose semantic parent is the translation unit and whose type is not const-qualified.
\<close>

definition is_global_var :: "referenced_decl \<Rightarrow> bool" where
  "is_global_var rd \<longleftrightarrow>
     ref_kind rd = VAR_DECL \<and>
     ref_semantic_parent_kind rd = TRANSLATION_UNIT \<and>
     \<not> ref_type_is_const_qualified rd"

text \<open>The same test in standalone\_driver\_gen.py, which does not look at const.\<close>

definition is_global_var_standalone :: "referenced_decl \<Rightarrow> bool" where
  "is_global_var_standalone rd \<longleftrightarrow>
     ref_kind rd = VAR_DECL \<and>
     ref_semantic_parent_kind rd = TRANSLATION_UNIT"

text \<open>The \<open>elif\<close> branch, identical in both files.\<close>

definition is_external_func :: "string set \<Rightarrow> referenced_decl \<Rightarrow> bool" where
  "is_external_func function_names_set rd \<longleftrightarrow>
     ref_kind rd = FUNCTION_DECL \<and>
     \<not> ref_is_definition rd \<and>
     ref_spelling rd \<notin> function_names_set"

text \<open>
  The inner loop over one analyzed function. The two files differ only in the
  global-variable test, which is the first argument.
\<close>

definition scan_references ::
  "(referenced_decl \<Rightarrow> bool) \<Rightarrow> string set \<Rightarrow> cursor \<Rightarrow> usage \<Rightarrow> usage" where
  "scan_references global_test function_names_set func_cursor u =
     fold (\<lambda>child u.
             if kind child = DECL_REF_EXPR then
               (if global_test (referenced child)
                then u\<lparr>global_vars := insert (ref_spelling (referenced child)) (global_vars u)\<rparr>
                else if is_external_func function_names_set (referenced child)
                then u\<lparr>external_funcs :=
                         insert (ref_spelling (referenced child)) (external_funcs u)\<rparr>
                else u)
             else u)
          (walk_preorder func_cursor) u"

definition scan_unit ::
  "(referenced_decl \<Rightarrow> bool) \<Rightarrow> string set \<Rightarrow> cursor \<Rightarrow> usage" where
  "scan_unit global_test function_names_set tu =
     fold (\<lambda>func_cursor u.
             if kind func_cursor = FUNCTION_DECL \<and> is_definition func_cursor \<and>
                spelling func_cursor \<in> function_names_set
             then scan_references global_test function_names_set func_cursor u
             else u)
          (walk_preorder tu) \<lparr>global_vars = {}, external_funcs = {}\<rparr>"

definition analyze ::
  "(referenced_decl \<Rightarrow> bool) \<Rightarrow> frontend \<Rightarrow> string \<Rightarrow> string list \<Rightarrow> usage" where
  "analyze global_test fe preprocessed_file_path function_names =
     (if \<not> path_exists fe preprocessed_file_path
      then \<lparr>global_vars = {}, external_funcs = {}\<rparr>
      else case parse fe preprocessed_file_path of
             None \<Rightarrow> \<lparr>global_vars = {}, external_funcs = {}\<rparr>
           | Some tu \<Rightarrow> scan_unit global_test (set function_names) tu)"

definition find_globals_and_externs :: "frontend \<Rightarrow> string \<Rightarrow> string list \<Rightarrow> usage" where
  "find_globals_and_externs = analyze is_global_var"

definition find_globals_and_externs_standalone ::
  "frontend \<Rightarrow> string \<Rightarrow> string list \<Rightarrow> usage" where
  "find_globals_and_externs_standalone = analyze is_global_var_standalone"

text \<open>A reference expression and the declarations it can resolve to, for examples.\<close>

definition decl_ref_expr :: "referenced_decl \<Rightarrow> cursor" where
  "decl_ref_expr r = Cursor DECL_REF_EXPR (ref_spelling r) False int_type invalid_type r []"

definition global_var_decl :: "string \<Rightarrow> bool \<Rightarrow> referenced_decl" where
  "global_var_decl n is_const = Referenced VAR_DECL n TRANSLATION_UNIT is_const True"

definition func_prototype :: "string \<Rightarrow> referenced_decl" where
  "func_prototype n = Referenced FUNCTION_DECL n TRANSLATION_UNIT False False"

text \<open>
  Scenario C of the specification: \<open>int g1; const int g2; void ext(void);
  void f(void) { g1 = g2; ext(); }\<close>.
\<close>

definition scenario_c_unit :: cursor where
  "scenario_c_unit = translation_unit
     [function_def void_type ''f'' []
        [decl_ref_expr (global_var_decl ''g1'' False),
         decl_ref_expr (global_var_decl ''g2'' True),
         Cursor CALL_EXPR ''ext'' False void_type invalid_type no_reference
           [decl_ref_expr (func_prototype ''ext'')]]]"

section \<open>Text helpers\<close>

text \<open>\<open>sep.join(xs)\<close>.\<close>

fun join :: "string \<Rightarrow> string list \<Rightarrow> string" where
  "join sep [] = []"
| "join sep [x] = x"
| "join sep (x # y # ys) = x @ sep @ join sep (y # ys)"

definition newline :: string where
  "newline = [CHR 0x0A]"

definition digit_char :: "nat \<Rightarrow> char" where
  "digit_char d =
     (if d = 0 then CHR ''0'' else if d = 1 then CHR ''1'' else if d = 2 then CHR ''2''
      else if d = 3 then CHR ''3'' else if d = 4 then CHR ''4'' else if d = 5 then CHR ''5''
      else if d = 6 then CHR ''6'' else if d = 7 then CHR ''7'' else if d = 8 then CHR ''8''
      else CHR ''9'')"

text \<open>The decimal rendering of a non-negative integer inside an f-string.\<close>

fun str_nat :: "nat \<Rightarrow> string" where
  "str_nat n =
     (if n < 10 then [digit_char n] else str_nat (n div 10) @ [digit_char (n mod 10)])"

declare str_nat.simps [simp del]

section \<open>Entrypoint-call generator (generate\_driver.py)\<close>

text \<open>
  The dictionary \<open>function_decls\<close>: a later definition of the same spelling replaces an
  earlier one.
\<close>

definition function_decls :: "cursor \<Rightarrow> (string \<rightharpoonup> cursor)" where
  "function_decls tu =
     fold (\<lambda>cursor m.
             if kind cursor = FUNCTION_DECL \<and> is_definition cursor
             then m(spelling cursor \<mapsto> cursor) else m)
          (walk_preorder tu) Map.empty"

text \<open>
  One turn of the loop over the parameters. The state is the pair of the lists
  \<open>driver_code\<close> and \<open>arg_names\<close>. An empty spelling is falsy, so \<open>or\<close> takes the
  synthesized name.
\<close>

definition param_step :: "cursor \<Rightarrow> string list \<times> string list \<Rightarrow> string list \<times> string list" where
  "param_step param st =
     (let driver_code = fst st; arg_names = snd st;
          arg_name = (if spelling param \<noteq> [] then spelling param
                      else ''arg_'' @ str_nat (length arg_names));
          arg_type = type_spelling (cursor_type param);
          arg_names = arg_names @ [arg_name];
          driver_code = driver_code @ [''        '' @ arg_type @ '' '' @ arg_name @ '';'']
      in if type_kind (cursor_type param) = POINTER
         then (driver_code @
                 [''        make_unknown(&'' @ arg_name @ '', max(16, sizeof(*'' @ arg_name @ '')));''],
               arg_names)
         else (driver_code @
                 [''        make_unknown(&'' @ arg_name @ '', sizeof('' @ arg_name @ ''));''],
               arg_names))"

text \<open>One turn of the loop over the entrypoints.\<close>

definition entrypoint_step :: "(string \<rightharpoonup> cursor) \<Rightarrow> string \<Rightarrow> string list \<Rightarrow> string list" where
  "entrypoint_step decls entrypoint driver_code =
     (case decls entrypoint of
        None \<Rightarrow>
          driver_code @
            [''    // Warning: Could not find definition for entrypoint '' @ [CHR 0x27] @
             entrypoint @ [CHR 0x27] @ ''. Skipping.'']
      | Some func_cursor \<Rightarrow>
          (let driver_code = driver_code @ [''    {''];
               params = filter (\<lambda>c. kind c = PARM_DECL) (get_children func_cursor);
               st = fold param_step params (driver_code, []);
               driver_code = fst st @ [''        '' @ entrypoint @ ''('' @ join '', '' (snd st) @ '');'']
           in driver_code @ [''    }'']))"

text \<open>The lines appended before the unit is parsed.\<close>

definition driver_prelude :: "string \<Rightarrow> string list" where
  "driver_prelude c_file_name =
     [''#include '' @ [CHR 0x22] @ c_file_name @ [CHR 0x22] @ newline,
      ''// Forward declaration for the function to create unknown values.'',
      ''void make_unknown(void *data, unsigned long size);'' @ newline,
      ''// A simple max macro.'',
      ''#define max(a,b) (((a) > (b)) ? (a) : (b))'' @ newline,
      ''int main() {'']"

definition generate_driver :: "frontend \<Rightarrow> string \<Rightarrow> string \<Rightarrow> string list \<Rightarrow> string" where
  "generate_driver fe c_file_name preprocessed_file_path entrypoints =
     (if \<not> path_exists fe preprocessed_file_path then []
      else case parse fe preprocessed_file_path of
             None \<Rightarrow> []
           | Some tu \<Rightarrow>
               join newline
                 (fold (entrypoint_step (function_decls tu)) entrypoints
                       (driver_prelude c_file_name)
                  @ [''    return 0;'', ''}'']))"

text \<open>
  The specification's side of one entrypoint block, written position by position: the name
  used for the parameter at position \<open>i\<close>, and the two lines emitted for it.
\<close>

definition parameters_of :: "cursor \<Rightarrow> cursor list" where
  "parameters_of func_cursor = filter (\<lambda>c. kind c = PARM_DECL) (get_children func_cursor)"

definition param_name_at :: "cursor list \<Rightarrow> nat \<Rightarrow> string" where
  "param_name_at params i =
     (if spelling (params ! i) \<noteq> [] then spelling (params ! i) else ''arg_'' @ str_nat i)"

definition declaration_line :: "cursor list \<Rightarrow> nat \<Rightarrow> string" where
  "declaration_line params i =
     ''        '' @ type_spelling (cursor_type (params ! i)) @ '' '' @ param_name_at params i @ '';''"

definition fill_line :: "cursor list \<Rightarrow> nat \<Rightarrow> string" where
  "fill_line params i =
     (if type_kind (cursor_type (params ! i)) = POINTER
      then ''        make_unknown(&'' @ param_name_at params i @ '', max(16, sizeof(*'' @
           param_name_at params i @ '')));''
      else ''        make_unknown(&'' @ param_name_at params i @ '', sizeof('' @
           param_name_at params i @ ''));'')"

definition call_line :: "string \<Rightarrow> cursor list \<Rightarrow> string" where
  "call_line entrypoint params =
     ''        '' @ entrypoint @ ''('' @
     join '', '' (map (param_name_at params) [0..<length params]) @ '');''"

text \<open>Parameters and types for examples.\<close>

definition pointer_to :: "ctype \<Rightarrow> ctype" where
  "pointer_to t = CType (type_spelling t @ '' *'') POINTER False False (Some t)"

definition char_type :: ctype where
  "char_type = CType ''char'' CHAR_S False False None"

definition parm_decl :: "ctype \<Rightarrow> string \<Rightarrow> cursor" where
  "parm_decl t n = Cursor PARM_DECL n False t invalid_type no_reference []"


text \<open>\<open>void f(int arg_1, int) {}\<close>: a named parameter followed by an unnamed one.\<close>

definition clash_def :: cursor where
  "clash_def =
     function_def void_type ''f'' [parm_decl int_type ''arg_1'', parm_decl int_type []] []"

section \<open>Environment-stub generator (generate\_driver\_2.py, standalone\_driver\_gen.py)\<close>

text \<open>
  The routine that randomizes the globals. The inner loop stops at the first variable
  declaration of that spelling, so one line is emitted when there is one and none otherwise.
\<close>

definition randomize_step :: "cursor \<Rightarrow> string \<Rightarrow> string list \<Rightarrow> string list" where
  "randomize_step tu var_name driver_code =
     (case find (\<lambda>cursor. kind cursor = VAR_DECL \<and> spelling cursor = var_name) (walk_preorder tu) of
        Some cursor \<Rightarrow>
          driver_code @ [''    make_unknown(&'' @ var_name @ '', sizeof('' @ var_name @ ''));'']
      | None \<Rightarrow> driver_code)"

definition stub_prelude :: "string list" where
  "stub_prelude =
     [''// Forward declarations for utility functions.'',
      ''void make_unknown(void *data, unsigned long size);'',
      ''void *alloc_safe(unsigned long size);'',
      ''void _check_initialized(void *data, unsigned long size);'',
      ''#define check_initialized(x) _check_initialized(&(x), sizeof(x))'' @ newline]"

text \<open>
  The first loop over the children of a declaration. The state is
  \<open>(param_decls, param_names, i)\<close>.
\<close>

definition signature_step ::
  "cursor \<Rightarrow> string list \<times> string list \<times> nat \<Rightarrow> string list \<times> string list \<times> nat" where
  "signature_step param st =
     (case st of (param_decls, param_names, i) \<Rightarrow>
        if kind param = PARM_DECL then
          (let param_name = (if spelling param \<noteq> [] then spelling param else ''arg'' @ str_nat i);
               param_type = type_spelling (cursor_type param)
           in (param_decls @ [param_type @ '' '' @ param_name], param_names @ [param_name], i + 1))
        else (param_decls, param_names, i))"

text \<open>The second loop over the children. The state is \<open>(driver_code, i)\<close>.\<close>

definition check_step :: "cursor \<Rightarrow> string list \<times> nat \<Rightarrow> string list \<times> nat" where
  "check_step param st =
     (case st of (driver_code, i) \<Rightarrow>
        if kind param = PARM_DECL then
          (let param_name = (if spelling param \<noteq> [] then spelling param else ''arg'' @ str_nat i);
               driver_code = driver_code @ [''    check_initialized('' @ param_name @ '');''];
               driver_code =
                 (if type_kind (cursor_type param) = POINTER then
                    (let driver_code = driver_code @ [''    check_initialized(*'' @ param_name @ '');''];
                         pointee_type = get_pointee (cursor_type param)
                     in if \<not> is_const_qualified pointee_type
                        then driver_code @
                               [''    make_unknown('' @ param_name @ '', sizeof(*'' @ param_name @ ''));'']
                        else driver_code)
                  else driver_code)
           in (driver_code, i + 1))
        else (driver_code, i))"

text \<open>The lines that produce the return value.\<close>

definition return_lines :: "cursor \<Rightarrow> string list" where
  "return_lines cursor =
     (let return_type = type_spelling (result_type cursor) in
      if type_kind (result_type cursor) \<noteq> VOID then
        (if type_kind (result_type cursor) = POINTER then
           [''    '' @ return_type @ '' out = ('' @ return_type @ '')alloc_safe(sizeof('' @
              type_spelling (get_pointee (result_type cursor)) @ ''));'',
            ''    make_unknown(out, sizeof(*out));'']
         else
           [''    '' @ return_type @ '' out;'',
            ''    make_unknown(&out, sizeof(out));''])
        @ [''    return out;'']
      else [])"

text \<open>The variadic marker of generate\_driver\_2.py.\<close>

definition add_variadic :: "cursor \<Rightarrow> string list \<Rightarrow> string list" where
  "add_variadic cursor param_decls =
     (if type_kind (cursor_type cursor) = FUNCTIONPROTO \<and> is_function_variadic (cursor_type cursor)
      then (if param_decls \<noteq> [] then param_decls @ [''...''] else param_decls @ [''void, ...''])
      else param_decls)"

text \<open>
  The body of the loop over the declarations, for one declaration that passed the test.
  The first argument is what happens to \<open>param_decls\<close> between the first loop and the
  header line: \<open>add_variadic cursor\<close> in generate\_driver\_2.py, nothing in
  standalone\_driver\_gen.py.
\<close>

definition emit_stub ::
  "(cursor \<Rightarrow> string list \<Rightarrow> string list) \<Rightarrow> cursor \<Rightarrow> string list \<Rightarrow> string list" where
  "emit_stub variadic cursor driver_code =
     (let func_name = spelling cursor;
          return_type = type_spelling (result_type cursor);
          param_decls = fst (fold signature_step (get_children cursor) ([], [], 0));
          param_decls = variadic cursor param_decls;
          driver_code = driver_code @
            [return_type @ '' '' @ func_name @ ''('' @ join '', '' param_decls @ '') {''];
          driver_code = driver_code @ [''    randomize_all_global_vars();''];
          driver_code = fst (fold check_step (get_children cursor) (driver_code, 0));
          driver_code = driver_code @ return_lines cursor
      in driver_code @ [''}'' @ newline])"

definition stub_step ::
  "(cursor \<Rightarrow> string list \<Rightarrow> string list) \<Rightarrow> string set \<Rightarrow> cursor \<Rightarrow> string list \<Rightarrow> string list" where
  "stub_step variadic external_names cursor driver_code =
     (if kind cursor = FUNCTION_DECL \<and> spelling cursor \<in> external_names \<and> \<not> is_definition cursor
      then emit_stub variadic cursor driver_code
      else driver_code)"

definition driver_2_lines ::
  "(cursor \<Rightarrow> string list \<Rightarrow> string list) \<Rightarrow> cursor \<Rightarrow> string list \<Rightarrow> string set \<Rightarrow> string list" where
  "driver_2_lines variadic tu global_vars_list external_names =
     (let driver_code = stub_prelude @ [''void randomize_all_global_vars() {''];
          driver_code = fold (randomize_step tu) global_vars_list driver_code;
          driver_code = driver_code @ [''}'' @ newline]
      in fold (stub_step variadic external_names) (walk_preorder tu) driver_code)"

definition driver_2 ::
  "(cursor \<Rightarrow> string list \<Rightarrow> string list) \<Rightarrow> frontend \<Rightarrow> string \<Rightarrow> string list \<Rightarrow> string set
   \<Rightarrow> string" where
  "driver_2 variadic fe preprocessed_file_path global_vars_list external_names =
     (if \<not> path_exists fe preprocessed_file_path then []
      else case parse fe preprocessed_file_path of
             None \<Rightarrow> []
           | Some tu \<Rightarrow> join newline (driver_2_lines variadic tu global_vars_list external_names))"

definition generate_driver_2 :: "frontend \<Rightarrow> string \<Rightarrow> string list \<Rightarrow> string set \<Rightarrow> string" where
  "generate_driver_2 = driver_2 add_variadic"

definition generate_driver_2_standalone ::
  "frontend \<Rightarrow> string \<Rightarrow> string list \<Rightarrow> string set \<Rightarrow> string" where
  "generate_driver_2_standalone = driver_2 (\<lambda>cursor param_decls. param_decls)"

text \<open>The header line of a stub, as each file computes it.\<close>

definition stub_header :: "(cursor \<Rightarrow> string list \<Rightarrow> string list) \<Rightarrow> cursor \<Rightarrow> string" where
  "stub_header variadic cursor =
     type_spelling (result_type cursor) @ '' '' @ spelling cursor @ ''('' @
     join '', '' (variadic cursor (fst (fold signature_step (get_children cursor) ([], [], 0)))) @
     '') {''"

text \<open>
  The specification's side of the signature: the parameter at position \<open>i\<close> is declared with
  its type spelling and its name, or \<open>arg<i>\<close> when it has none.
\<close>

definition stub_param_decl :: "cursor list \<Rightarrow> nat \<Rightarrow> string" where
  "stub_param_decl params i =
     type_spelling (cursor_type (params ! i)) @ '' '' @
     (if spelling (params ! i) \<noteq> [] then spelling (params ! i) else ''arg'' @ str_nat i)"

definition is_variadic_decl :: "cursor \<Rightarrow> bool" where
  "is_variadic_decl cursor \<longleftrightarrow>
     type_kind (cursor_type cursor) = FUNCTIONPROTO \<and> is_function_variadic (cursor_type cursor)"

text \<open>Declarations for examples.\<close>

definition function_decl :: "ctype \<Rightarrow> string \<Rightarrow> bool \<Rightarrow> cursor list \<Rightarrow> cursor" where
  "function_decl rt n variadic params =
     Cursor FUNCTION_DECL n False (CType [] FUNCTIONPROTO False variadic None) rt no_reference params"

text \<open>The self-test's \<open>int my_printf(char* fmt, int i, ...);\<close>.\<close>

definition my_printf_decl :: cursor where
  "my_printf_decl =
     function_decl int_type ''my_printf'' True
       [parm_decl (pointer_to char_type) ''fmt'', parm_decl int_type ''i'']"

section \<open>Final assembly (main2.py)\<close>

text \<open>
  \<open>s.split(sep)\<close> for a non-empty separator: the pieces between successive occurrences of
  \<open>sep\<close>, scanned from the left. \<open>cur\<close> is the piece being read.
\<close>

function split_from :: "string \<Rightarrow> string \<Rightarrow> string \<Rightarrow> string list" where
  "split_from sep cur s =
     (if s = [] then [cur]
      else if sep \<noteq> [] \<and> take (length sep) s = sep
           then cur # split_from sep [] (drop (length sep) s)
      else split_from sep (cur @ [hd s]) (tl s))"
  by pat_completeness auto
termination
  by (relation "measure (\<lambda>(sep, cur, s). length s)") auto

definition split_str :: "string \<Rightarrow> string \<Rightarrow> string list" where
  "split_str s sep = split_from sep [] s"

datatype py_error = IndexError

text \<open>
  The combination of the two parts. \<open>driver_part2.split("int main() {")[1]\<close> raises
  \<open>IndexError\<close> when the separator does not occur.
\<close>

definition assemble :: "string \<Rightarrow> string \<Rightarrow> string \<Rightarrow> py_error + string" where
  "assemble base_name driver_part1 driver_part2 =
     (let final_driver_code = ''#include '' @ [CHR 0x22] @ base_name @ [CHR 0x22] @ newline;
          final_driver_code = final_driver_code @ driver_part1;
          pieces = split_str driver_part2 ''int main() {''
      in if length pieces \<le> 1 then Inl IndexError
         else
           (let main_func_body = pieces ! 1;
                final_driver_code = final_driver_code @ newline @ ''int main() {'' @ newline;
                final_driver_code = final_driver_code @ ''    randomize_all_global_vars();'' @ newline
            in Inr (final_driver_code @ main_func_body)))"

text \<open>
  Steps 3 to 5 of \<open>main()\<close>, from the list of function names and the preprocessed file to
  the text written to the output file. The analyses return sets and the generators iterate
  over them; \<open>iter\<close> is the order in which a set is iterated.
\<close>

definition main_steps ::
  "(string set \<Rightarrow> string list) \<Rightarrow> frontend \<Rightarrow> string \<Rightarrow> string \<Rightarrow> string list
   \<Rightarrow> py_error + string" where
  "main_steps iter fe base_name preprocessed_file_path all_function_names =
     (let results = find_globals_and_externs fe preprocessed_file_path all_function_names;
          entrypoints = find_entrypoints fe preprocessed_file_path all_function_names;
          driver_part1 = generate_driver_2 fe preprocessed_file_path
                           (iter (global_vars results)) (external_funcs results);
          driver_part2 = generate_driver fe base_name preprocessed_file_path (iter entrypoints)
      in assemble base_name driver_part1 driver_part2)"

text \<open>The text that opens the entry function of the assembled driver.\<close>

definition main_opening :: string where
  "main_opening =
     newline @ ''int main() {'' @ newline @ ''    randomize_all_global_vars();'' @ newline"

section \<open>Preprocessor options (preprocess\_c\_file.py, main.py)\<close>

definition startswith :: "string \<Rightarrow> string \<Rightarrow> bool" where
  "startswith s p \<longleftrightarrow> take (length p) s = p"

text \<open>
  One turn of the loop over \<open>enumerate(args)\<close>. The first argument is the list of the
  \<open>elif\<close> test, the only place where the two files differ.
\<close>

definition option_step ::
  "string list \<Rightarrow> string list \<Rightarrow> nat \<times> string \<Rightarrow> string list \<Rightarrow> string list" where
  "option_step paired args ia preprocessor_options =
     (let i = fst ia; arg = snd ia in
      if startswith arg ''-I'' \<or> startswith arg ''-D'' \<or> startswith arg ''-U''
      then preprocessor_options @ [arg]
      else if arg \<in> set paired \<and> i + 1 < length args
      then preprocessor_options @ [arg, args ! (i + 1)]
      else preprocessor_options)"

text \<open>preprocess\_c\_file.py (and standalone\_driver\_gen.py).\<close>

definition preprocessor_options :: "string list \<Rightarrow> string list" where
  "preprocessor_options args =
     fold (option_step [''-isystem'', ''-I'', ''-include'', ''-D'', ''-U''] args)
          (enumerate 0 args) []"

text \<open>The copy of the function in main.py.\<close>

definition preprocessor_options_main :: "string list \<Rightarrow> string list" where
  "preprocessor_options_main args =
     fold (option_step [''-isystem''] args) (enumerate 0 args) []"

definition clang_command :: "string list \<Rightarrow> string \<Rightarrow> string list" where
  "clang_command args file_path =
     [''clang'', ''-E'', ''-P''] @ preprocessor_options args @ [file_path]"

definition clang_command_main :: "string list \<Rightarrow> string \<Rightarrow> string list" where
  "clang_command_main args file_path =
     [''clang'', ''-E'', ''-P''] @ preprocessor_options_main args @ [file_path]"

text \<open>A compile command that forces a header in with \<open>-include\<close>.\<close>

definition include_args :: "string list" where
  "include_args = [''gcc'', ''-include'', ''config.h'', ''-DMY_MACRO'', ''-c'', ''test.c'']"

section \<open>Notions used in the statements, and further examples\<close>

text \<open>\<open>void f(void) { f(); }  void g(void) {}\<close>: a function whose only caller is itself.\<close>

definition recursive_unit :: cursor where
  "recursive_unit = translation_unit
     [function_def void_type ''f'' [] [call_expr ''f''],
      function_def void_type ''g'' [] []]"

text \<open>Three functions that call each other in a cycle, with no caller outside.\<close>

definition cycle_unit :: cursor where
  "cycle_unit = translation_unit
     [function_def void_type ''a'' [] [call_expr ''b''],
      function_def void_type ''b'' [] [call_expr ''c''],
      function_def void_type ''c'' [] [call_expr ''a'']]"

text \<open>
  ``Called by another analyzed function'': some definition of the unit, named in \<open>F\<close> and
  not \<open>n\<close> itself, contains a call expression whose spelling is \<open>n\<close>.
\<close>

definition called_by_another :: "cursor \<Rightarrow> string set \<Rightarrow> string \<Rightarrow> bool" where
  "called_by_another tu F n \<longleftrightarrow>
     (\<exists>c \<in> set (walk_preorder tu).
        kind c = FUNCTION_DECL \<and> is_definition c \<and> spelling c \<in> F \<and> spelling c \<noteq> n \<and>
        (\<exists>e \<in> set (walk_preorder c). kind e = CALL_EXPR \<and> spelling e = n))"

text \<open>The same, with the caller allowed to be the function itself.\<close>

definition called_within :: "cursor \<Rightarrow> string set \<Rightarrow> string \<Rightarrow> bool" where
  "called_within tu F n \<longleftrightarrow>
     (\<exists>c \<in> set (walk_preorder tu).
        kind c = FUNCTION_DECL \<and> is_definition c \<and> spelling c \<in> F \<and>
        (\<exists>e \<in> set (walk_preorder c). kind e = CALL_EXPR \<and> spelling e = n))"

text \<open>\<open>void f(void) { f(); }\<close> alone in its file.\<close>

definition self_unit :: cursor where
  "self_unit = translation_unit [function_def void_type ''f'' [] [call_expr ''f'']]"



text \<open>
  The specification's side of the two result sets: the spellings of the declarations that
  the references inside the analyzed definitions resolve to, by the branch that takes them.
\<close>

definition analyzed_references :: "cursor \<Rightarrow> string set \<Rightarrow> referenced_decl set" where
  "analyzed_references tu F =
     {referenced e | f e.
        f \<in> set (walk_preorder tu) \<and> kind f = FUNCTION_DECL \<and> is_definition f \<and>
        spelling f \<in> F \<and> e \<in> set (walk_preorder f) \<and> kind e = DECL_REF_EXPR}"


text \<open>
  A tree that no C unit parses to: one reference resolves to a file-scope variable \<open>x\<close> and
  another to an undefined function \<open>x\<close>.
\<close>

definition two_kinds_unit :: cursor where
  "two_kinds_unit = translation_unit
     [function_def void_type ''f'' []
        [decl_ref_expr (global_var_decl ''x'' False), decl_ref_expr (func_prototype ''x'')]]"

text \<open>
  The block the specification describes for one entrypoint: a skip comment when the name is
  not in the lookup; otherwise, in its own scope, a declaration and a fill request for each
  parameter in declaration order, then the call.
\<close>

definition entry_block :: "(string \<rightharpoonup> cursor) \<Rightarrow> string \<Rightarrow> string list" where
  "entry_block decls entrypoint =
     (case decls entrypoint of
        None \<Rightarrow>
          [''    // Warning: Could not find definition for entrypoint '' @ [CHR 0x27] @
           entrypoint @ [CHR 0x27] @ ''. Skipping.'']
      | Some func_cursor \<Rightarrow>
          [''    {''] @
          concat (map (\<lambda>i. [declaration_line (parameters_of func_cursor) i,
                             fill_line (parameters_of func_cursor) i])
                      [0..<length (parameters_of func_cursor)]) @
          [call_line entrypoint (parameters_of func_cursor), ''    }''])"

text \<open>The names \<open>arg_names\<close> holds when the call is emitted.\<close>

definition arg_names_of :: "cursor \<Rightarrow> string list" where
  "arg_names_of func_cursor = snd (fold param_step (parameters_of func_cursor) ([''    {''], []))"


definition randomize_call :: string where
  "randomize_call = ''    randomize_all_global_vars();''"

text \<open>The lines the second loop appends for a declaration.\<close>

definition check_lines :: "cursor \<Rightarrow> string list" where
  "check_lines cursor = fst (fold check_step (get_children cursor) ([], 0))"

text \<open>The test that selects the declarations to stub.\<close>

definition is_stubbed :: "string set \<Rightarrow> cursor \<Rightarrow> bool" where
  "is_stubbed external_names cursor \<longleftrightarrow>
     kind cursor = FUNCTION_DECL \<and> spelling cursor \<in> external_names \<and> \<not> is_definition cursor"

text \<open>
  The specification's side of the parameter list of a stub: one entry per parameter in
  order, then the variadic marker when the declared function type is variadic.
\<close>

definition stub_signature :: "cursor \<Rightarrow> string list" where
  "stub_signature cursor =
     map (stub_param_decl (parameters_of cursor)) [0..<length (parameters_of cursor)] @
     (if is_variadic_decl cursor
      then [if parameters_of cursor = [] then ''void, ...'' else ''...'']
      else [])"

definition my_printf_unit :: cursor where
  "my_printf_unit = translation_unit [my_printf_decl]"

text \<open>The lines of the routine that randomizes the globals.\<close>

definition randomize_routine :: "cursor \<Rightarrow> string list \<Rightarrow> string list" where
  "randomize_routine tu global_vars_list =
     [''void randomize_all_global_vars() {''] @
     fold (randomize_step tu) global_vars_list [] @
     [''}'' @ newline]"

declare split_from.simps [simp del]

text \<open>A unit that parses, for the assembly: \<open>void run(int n) {}\<close> and \<open>int ext(int *p);\<close>.\<close>

definition small_unit :: cursor where
  "small_unit = translation_unit
     [function_decl int_type ''ext'' False [parm_decl (pointer_to int_type) ''p''],
      function_def void_type ''run'' [parm_decl int_type ''n'']
        [Cursor CALL_EXPR ''ext'' False int_type invalid_type no_reference
           [decl_ref_expr (func_prototype ''ext'')]]]"

text \<open>An iteration order for the sets of the example.\<close>

definition example_iter :: "string set \<Rightarrow> string list" where
  "example_iter S = (if ''run'' \<in> S then [''run''] else [])"

text \<open>
  The specification's side of the filter: what the argument at position \<open>i\<close> contributes.
  A flag that starts with \<open>-I\<close>, \<open>-D\<close> or \<open>-U\<close> contributes itself; \<open>-isystem\<close> or
  \<open>-include\<close> with an argument after it contributes itself and that argument; anything
  else contributes nothing.
\<close>

definition kept_at :: "string list \<Rightarrow> nat \<Rightarrow> string list" where
  "kept_at args i =
     (if startswith (args ! i) ''-I'' \<or> startswith (args ! i) ''-D'' \<or> startswith (args ! i) ''-U''
      then [args ! i]
      else if (args ! i = ''-isystem'' \<or> args ! i = ''-include'') \<and> i + 1 < length args
      then [args ! i, args ! (i + 1)]
      else [])"

text \<open>Reading a decimal rendering back.\<close>

definition digit_value :: "char \<Rightarrow> nat" where
  "digit_value c =
     (if c = CHR ''0'' then 0 else if c = CHR ''1'' then 1 else if c = CHR ''2'' then 2
      else if c = CHR ''3'' then 3 else if c = CHR ''4'' then 4 else if c = CHR ''5'' then 5
      else if c = CHR ''6'' then 6 else if c = CHR ''7'' then 7 else if c = CHR ''8'' then 8
      else 9)"

definition decimal_value :: "string \<Rightarrow> nat" where
  "decimal_value s = foldl (\<lambda>acc c. 10 * acc + digit_value c) 0 s"

section \<open>Properties of entrypoint detection\<close>

lemma add_callees_of_eq:
  "add_callees_of fns c acc =
     acc \<union> {n \<in> set fns. \<exists>e \<in> set (walk_preorder c). kind e = CALL_EXPR \<and> spelling e = n}"
proof -
  have "\<And>acc. fold (\<lambda>child callees.
             if kind child = CALL_EXPR then
               (let callee_name = spelling child in
                if callee_name \<in> set fns then insert callee_name callees
                else callees)
             else callees) xs acc =
        acc \<union> {n \<in> set fns. \<exists>e \<in> set xs. kind e = CALL_EXPR \<and> spelling e = n}" for xs
    by (induction xs) (auto simp: Let_def)
  then show ?thesis by (simp add: add_callees_of_def)
qed

lemma collect_callees_eq:
  "collect_callees fns tu = one_hop_callees tu (set fns)"
proof -
  have "\<And>acc. fold (\<lambda>cursor callees.
             if kind cursor = FUNCTION_DECL \<and> is_definition cursor then
               (let caller_name = spelling cursor in
                if caller_name \<in> set fns
                then add_callees_of fns cursor callees
                else callees)
             else callees) xs acc =
        acc \<union> {n \<in> set fns. \<exists>c \<in> set xs.
                kind c = FUNCTION_DECL \<and> is_definition c \<and> spelling c \<in> set fns \<and>
                (\<exists>e \<in> set (walk_preorder c). kind e = CALL_EXPR \<and> spelling e = n)}" for xs
    by (induction xs) (auto simp: Let_def add_callees_of_eq)
  then show ?thesis by (simp add: collect_callees_def one_hop_callees_def)
qed

lemmas example_defs =
  translation_unit_def function_def_def call_expr_def compound_stmt_def parsed_def

lemmas entrypoint_defs = find_entrypoints_def collect_callees_def add_callees_of_def

text \<open>The script's self-test (scenarios A and B of the specification).\<close>

lemma selftest_entrypoints:
  "find_entrypoints (parsed selftest_unit) ''preprocessed_test.c''
     [''main'', ''foo'', ''bar'', ''standalone'', ''baz''] = {''main'', ''baz''}"
  by (auto simp add: entrypoint_defs selftest_unit_def example_defs)

text \<open>A cycle has no entrypoint: the callees are never closed under reachability.\<close>

lemma cycle_entrypoints:
  "find_entrypoints (parsed cycle_unit) ''cycle.c'' [''a'', ''b'', ''c''] = {}"
  by (auto simp add: entrypoint_defs cycle_unit_def example_defs)

text \<open>
  Claim C1. On a parsed unit, the set returned by \<open>find_entrypoints\<close> is the set of the
  given names minus the one-hop callees: the names in the list that some function defined in
  the unit, itself named in the list, calls. In particular a function of the list that calls
  itself is not an entrypoint.
\<close>

theorem find_entrypoints_one_hop:
  assumes "path_exists fe p" and "parse fe p = Some tu"
  shows "find_entrypoints fe p fns = set fns - one_hop_callees tu (set fns) \<and>
         (\<forall>c e. c \<in> set (walk_preorder tu) \<and> kind c = FUNCTION_DECL \<and> is_definition c \<and>
                spelling c \<in> set fns \<and> e \<in> set (walk_preorder c) \<and> kind e = CALL_EXPR \<and>
                spelling e = spelling c \<longrightarrow> spelling c \<notin> find_entrypoints fe p fns)"
proof -
  have eq: "find_entrypoints fe p fns = set fns - one_hop_callees tu (set fns)"
    using assms by (simp add: find_entrypoints_def collect_callees_eq)
  have "spelling c \<in> one_hop_callees tu (set fns)"
    if "c \<in> set (walk_preorder tu)" "kind c = FUNCTION_DECL" "is_definition c"
       "spelling c \<in> set fns" "e \<in> set (walk_preorder c)" "kind e = CALL_EXPR"
       "spelling e = spelling c" for c e
    unfolding one_hop_callees_def using that by blast
  with eq show ?thesis by blast
qed

theorem find_entrypoints_one_hop_witness:
  "path_exists (parsed recursive_unit) ''t.c'' \<and>
   parse (parsed recursive_unit) ''t.c'' = Some recursive_unit \<and>
   find_entrypoints (parsed recursive_unit) ''t.c'' [''f'', ''g''] =
     set [''f'', ''g''] - one_hop_callees recursive_unit (set [''f'', ''g'']) \<and>
   ''f'' \<notin> find_entrypoints (parsed recursive_unit) ''t.c'' [''f'', ''g'']"
proof -
  have ex: "path_exists (parsed recursive_unit) ''t.c''"
    "parse (parsed recursive_unit) ''t.c'' = Some recursive_unit"
    by (simp_all add: parsed_def)
  note inst = find_entrypoints_one_hop [OF ex, of "[''f'', ''g'']"]
  from inst have self_call:
    "\<And>c e. c \<in> set (walk_preorder recursive_unit) \<Longrightarrow> kind c = FUNCTION_DECL \<Longrightarrow>
       is_definition c \<Longrightarrow> spelling c \<in> set [''f'', ''g''] \<Longrightarrow>
       e \<in> set (walk_preorder c) \<Longrightarrow> kind e = CALL_EXPR \<Longrightarrow> spelling e = spelling c \<Longrightarrow>
       spelling c \<notin> find_entrypoints (parsed recursive_unit) ''t.c'' [''f'', ''g'']"
    by blast
  have "''f'' \<notin> find_entrypoints (parsed recursive_unit) ''t.c'' [''f'', ''g'']"
    using self_call [of "function_def void_type ''f'' [] [call_expr ''f'']" "call_expr ''f''"]
    by (simp add: recursive_unit_def example_defs)
  with ex inst show ?thesis by blast
qed

lemma walk_preorder_self: "c \<in> set (walk_preorder c)"
  by (cases c) simp


text \<open>
  Claim C6 fails on a file with the single function \<open>f\<close> that calls itself: the entrypoint
  set is empty although no other analyzed function calls \<open>f\<close>. The comments of the function
  describe the callees as the functions ``called by other functions in the list'', but the
  loops never compare the callee with the caller, so a call of \<open>f\<close> inside \<open>f\<close> makes \<open>f\<close> a
  callee.
\<close>

theorem empty_without_other_caller:
  "find_entrypoints (parsed self_unit) ''t.c'' [''f''] = {} \<and> ''f'' \<in> set [''f''] \<and>
   \<not> called_by_another self_unit (set [''f'']) ''f''"
  by (auto simp add: entrypoint_defs called_by_another_def self_unit_def example_defs)

text \<open>
  What the loops do guarantee: the entrypoint set is a subset of the analyzed names, and on
  a parsed unit it is empty only when every analyzed name is the target of a call expression
  inside some analyzed function defined in the unit, the function itself included.
\<close>

lemma find_entrypoints_subset:
  "find_entrypoints fe p fns \<subseteq> set fns \<and>
   (path_exists fe p \<and> parse fe p = Some tu \<and> find_entrypoints fe p fns = {} \<longrightarrow>
      (\<forall>n \<in> set fns. called_within tu (set fns) n))"
proof -
  have "find_entrypoints fe p fns \<subseteq> set fns"
    by (auto simp add: find_entrypoints_def split: option.splits)
  moreover have "called_within tu (set fns) n"
    if "path_exists fe p" "parse fe p = Some tu" "find_entrypoints fe p fns = {}" "n \<in> set fns" for n
  proof -
    from that have "n \<in> one_hop_callees tu (set fns)"
      by (auto simp add: find_entrypoints_def collect_callees_eq)
    then show ?thesis by (simp add: one_hop_callees_def called_within_def)
  qed
  ultimately show ?thesis by blast
qed

lemma find_entrypoints_subset_cycle:
  "find_entrypoints (parsed cycle_unit) ''cycle.c'' [''a'', ''b'', ''c''] \<subseteq> set [''a'', ''b'', ''c''] \<and>
   path_exists (parsed cycle_unit) ''cycle.c'' \<and>
   parse (parsed cycle_unit) ''cycle.c'' = Some cycle_unit \<and>
   find_entrypoints (parsed cycle_unit) ''cycle.c'' [''a'', ''b'', ''c''] = {} \<and>
   called_within cycle_unit (set [''a'', ''b'', ''c'']) ''a'' \<and>
   called_within cycle_unit (set [''a'', ''b'', ''c'']) ''b'' \<and>
   called_within cycle_unit (set [''a'', ''b'', ''c'']) ''c''"
proof -
  have ex: "path_exists (parsed cycle_unit) ''cycle.c''"
    "parse (parsed cycle_unit) ''cycle.c'' = Some cycle_unit"
    by (simp_all add: parsed_def)
  show ?thesis
    using find_entrypoints_subset [of "parsed cycle_unit" "''cycle.c''" "[''a'', ''b'', ''c'']" cycle_unit]
      ex cycle_entrypoints
    by simp
qed

section \<open>Errors\<close>







section \<open>Properties of usage analysis\<close>

lemmas usage_example_defs = decl_ref_expr_def global_var_decl_def func_prototype_def

lemmas usage_defs =
  analyze_def scan_unit_def scan_references_def is_external_func_def

lemma scan_references_sets:
  "global_vars (scan_references g F f u) =
     global_vars u \<union> {ref_spelling (referenced e) | e.
        e \<in> set (walk_preorder f) \<and> kind e = DECL_REF_EXPR \<and> g (referenced e)}"
  "external_funcs (scan_references g F f u) =
     external_funcs u \<union> {ref_spelling (referenced e) | e.
        e \<in> set (walk_preorder f) \<and> kind e = DECL_REF_EXPR \<and> \<not> g (referenced e) \<and>
        is_external_func F (referenced e)}"
proof -
  let ?step = "\<lambda>child u.
             if kind child = DECL_REF_EXPR then
               (if g (referenced child)
                then u\<lparr>global_vars := insert (ref_spelling (referenced child)) (global_vars u)\<rparr>
                else if is_external_func F (referenced child)
                then u\<lparr>external_funcs :=
                         insert (ref_spelling (referenced child)) (external_funcs u)\<rparr>
                else u)
             else u"
  have gv: "global_vars (fold ?step xs u) =
     global_vars u \<union> {ref_spelling (referenced e) | e.
        e \<in> set xs \<and> kind e = DECL_REF_EXPR \<and> g (referenced e)}" for xs and u :: usage
    by (induction xs arbitrary: u) auto
  have ef: "external_funcs (fold ?step xs u) =
     external_funcs u \<union> {ref_spelling (referenced e) | e.
        e \<in> set xs \<and> kind e = DECL_REF_EXPR \<and> \<not> g (referenced e) \<and>
        is_external_func F (referenced e)}" for xs and u :: usage
    by (induction xs arbitrary: u) auto
  show "global_vars (scan_references g F f u) =
     global_vars u \<union> {ref_spelling (referenced e) | e.
        e \<in> set (walk_preorder f) \<and> kind e = DECL_REF_EXPR \<and> g (referenced e)}"
    unfolding scan_references_def by (rule gv)
  show "external_funcs (scan_references g F f u) =
     external_funcs u \<union> {ref_spelling (referenced e) | e.
        e \<in> set (walk_preorder f) \<and> kind e = DECL_REF_EXPR \<and> \<not> g (referenced e) \<and>
        is_external_func F (referenced e)}"
    unfolding scan_references_def by (rule ef)
qed

lemma scan_unit_sets:
  "global_vars (scan_unit g F tu) = {ref_spelling r | r. r \<in> analyzed_references tu F \<and> g r}"
  "external_funcs (scan_unit g F tu) =
     {ref_spelling r | r. r \<in> analyzed_references tu F \<and> \<not> g r \<and> is_external_func F r}"
proof -
  let ?step = "\<lambda>func_cursor u.
             if kind func_cursor = FUNCTION_DECL \<and> is_definition func_cursor \<and>
                spelling func_cursor \<in> F
             then scan_references g F func_cursor u
             else u"
  have gv: "global_vars (fold ?step xs u) =
     global_vars u \<union> {ref_spelling (referenced e) | f e.
        f \<in> set xs \<and> kind f = FUNCTION_DECL \<and> is_definition f \<and>
        spelling f \<in> F \<and> e \<in> set (walk_preorder f) \<and> kind e = DECL_REF_EXPR \<and>
        g (referenced e)}" for xs u
    by (induction xs arbitrary: u) (auto simp add: scan_references_sets)
  have ef: "external_funcs (fold ?step xs u) =
     external_funcs u \<union> {ref_spelling (referenced e) | f e.
        f \<in> set xs \<and> kind f = FUNCTION_DECL \<and> is_definition f \<and>
        spelling f \<in> F \<and> e \<in> set (walk_preorder f) \<and> kind e = DECL_REF_EXPR \<and>
        \<not> g (referenced e) \<and> is_external_func F (referenced e)}" for xs u
    by (induction xs arbitrary: u) (auto simp add: scan_references_sets)
  show "global_vars (scan_unit g F tu) = {ref_spelling r | r. r \<in> analyzed_references tu F \<and> g r}"
    unfolding scan_unit_def gv analyzed_references_def by auto
  show "external_funcs (scan_unit g F tu) =
     {ref_spelling r | r. r \<in> analyzed_references tu F \<and> \<not> g r \<and> is_external_func F r}"
    unfolding scan_unit_def ef analyzed_references_def by auto
qed


text \<open>Scenario C under both behaviours: the const global is kept only by the standalone file.\<close>

lemma scenario_c_usage:
  "find_globals_and_externs (parsed scenario_c_unit) ''c.c'' [''f''] =
     \<lparr>global_vars = {''g1''}, external_funcs = {''ext''}\<rparr>"
  "find_globals_and_externs_standalone (parsed scenario_c_unit) ''c.c'' [''f''] =
     \<lparr>global_vars = {''g1'', ''g2''}, external_funcs = {''ext''}\<rparr>"
  by (auto simp add: find_globals_and_externs_def find_globals_and_externs_standalone_def
      usage_defs is_global_var_def is_global_var_standalone_def scenario_c_unit_def
      example_defs usage_example_defs)

text \<open>
  Claim C5. A reference inside an analyzed function definition that resolves to a variable
  declaration whose semantic parent is the translation unit and whose type is not
  const-qualified puts the variable's name into \<open>GlobalVars\<close>, in the file that excludes
  const-qualified globals and in the file that does not.
\<close>

theorem nonconst_global_included:
  assumes "path_exists fe p" and "parse fe p = Some tu"
    and "f \<in> set (walk_preorder tu)" and "kind f = FUNCTION_DECL" and "is_definition f"
    and "spelling f \<in> set fns"
    and "e \<in> set (walk_preorder f)" and "kind e = DECL_REF_EXPR"
    and "ref_kind (referenced e) = VAR_DECL"
    and "ref_semantic_parent_kind (referenced e) = TRANSLATION_UNIT"
    and "\<not> ref_type_is_const_qualified (referenced e)"
  shows "ref_spelling (referenced e) \<in> global_vars (find_globals_and_externs fe p fns) \<and>
         ref_spelling (referenced e) \<in> global_vars (find_globals_and_externs_standalone fe p fns)"
proof -
  have r: "referenced e \<in> analyzed_references tu (set fns)"
    unfolding analyzed_references_def using assms(3-8) by blast
  have "is_global_var (referenced e)" "is_global_var_standalone (referenced e)"
    using assms(9-11) by (simp_all add: is_global_var_def is_global_var_standalone_def)
  with r assms(1,2) show ?thesis
    unfolding find_globals_and_externs_def find_globals_and_externs_standalone_def analyze_def
    by (simp add: scan_unit_sets) blast
qed

theorem nonconst_global_included_witness:
  "''g1'' \<in> global_vars (find_globals_and_externs (parsed scenario_c_unit) ''c.c'' [''f'']) \<and>
   ''g1'' \<in> global_vars (find_globals_and_externs_standalone (parsed scenario_c_unit) ''c.c'' [''f''])"
  using nonconst_global_included
    [of "parsed scenario_c_unit" "''c.c''" scenario_c_unit
        "function_def void_type ''f'' []
          [decl_ref_expr (global_var_decl ''g1'' False),
           decl_ref_expr (global_var_decl ''g2'' True),
           Cursor CALL_EXPR ''ext'' False void_type invalid_type no_reference
             [decl_ref_expr (func_prototype ''ext'')]]"
        "[''f'']" "decl_ref_expr (global_var_decl ''g1'' False)"]
  by (simp add: scenario_c_unit_def example_defs usage_example_defs)

text \<open>
  Without the front end's guarantee the two sets can meet: each reference goes to one set
  only, but nothing in the scripts compares the names of different references.
\<close>

lemma two_kinds_usage:
  "find_globals_and_externs (parsed two_kinds_unit) ''x.c'' [''f''] =
     \<lparr>global_vars = {''x''}, external_funcs = {''x''}\<rparr>"
  by (auto simp add: find_globals_and_externs_def usage_defs is_global_var_def
      two_kinds_unit_def example_defs usage_example_defs)



section \<open>Properties of the entrypoint-call generator\<close>

lemma fold_param_step:
  "params = pre @ ps \<Longrightarrow> length names = length pre \<Longrightarrow>
   fold param_step ps (dc, names) =
     (dc @ concat (map (\<lambda>i. [declaration_line params i, fill_line params i])
                       [length pre..<length params]),
      names @ map (param_name_at params) [length pre..<length params])"
proof (induction ps arbitrary: pre dc names)
  case Nil
  then show ?case by simp
next
  case (Cons x xs)
  have at: "params ! length pre = x" using Cons.prems by simp
  have step: "param_step x (dc, names) =
      (dc @ [declaration_line params (length pre), fill_line params (length pre)],
       names @ [param_name_at params (length pre)])"
    using Cons.prems(2) at
    by (simp add: param_step_def Let_def declaration_line_def fill_line_def param_name_at_def)
  have "params = (pre @ [x]) @ xs" using Cons.prems by simp
  moreover have "length (names @ [param_name_at params (length pre)]) = length (pre @ [x])"
    using Cons.prems by simp
  ultimately have "fold param_step xs
        (dc @ [declaration_line params (length pre), fill_line params (length pre)],
         names @ [param_name_at params (length pre)]) =
      ((dc @ [declaration_line params (length pre), fill_line params (length pre)]) @
         concat (map (\<lambda>i. [declaration_line params i, fill_line params i])
                     [length (pre @ [x])..<length params]),
       (names @ [param_name_at params (length pre)]) @
         map (param_name_at params) [length (pre @ [x])..<length params])"
    by (rule Cons.IH)
  moreover have "[length pre..<length params] = length pre # [length (pre @ [x])..<length params]"
  proof -
    have "length pre < length params" using Cons.prems by simp
    then have "[length pre..<length params] = length pre # [Suc (length pre)..<length params]"
      by (rule upt_conv_Cons)
    then show ?thesis by simp
  qed
  ultimately show ?case using step by simp
qed

lemma entrypoint_step_block:
  "entrypoint_step decls entrypoint driver_code = driver_code @ entry_block decls entrypoint"
proof (cases "decls entrypoint")
  case None
  then show ?thesis by (simp add: entrypoint_step_def entry_block_def)
next
  case (Some fc)
  have "fold param_step (parameters_of fc) (driver_code @ [''    {''], []) =
     ((driver_code @ [''    {'']) @
        concat (map (\<lambda>i. [declaration_line (parameters_of fc) i, fill_line (parameters_of fc) i])
                       [length ([]::cursor list)..<length (parameters_of fc)]),
      [] @ map (param_name_at (parameters_of fc)) [length ([]::cursor list)..<length (parameters_of fc)])"
    by (rule fold_param_step) simp_all
  with Some show ?thesis
    by (simp add: entrypoint_step_def entry_block_def Let_def call_line_def
        parameters_of_def [symmetric])
qed

lemma fold_entrypoint_step:
  "fold (entrypoint_step decls) eps dc = dc @ concat (map (entry_block decls) eps)"
  by (induction eps arbitrary: dc) (simp_all add: entrypoint_step_block)





text \<open>
  Claim C8 fails on \<open>void f(int arg_1, int) {}\<close>: the unnamed second parameter is given the
  name \<open>arg_1\<close>, which the first parameter already has, so the block declares \<open>arg_1\<close>
  twice and passes it twice.
\<close>

theorem synthesized_name_clash:
  "parameters_of clash_def = [parm_decl int_type ''arg_1'', parm_decl int_type []] \<and>
   arg_names_of clash_def = [''arg_1'', ''arg_1''] \<and>
   \<not> distinct (arg_names_of clash_def) \<and>
   entrypoint_step [''f'' \<mapsto> clash_def] ''f'' [] =
     [''    {'',
      ''        int arg_1;'',
      ''        make_unknown(&arg_1, sizeof(arg_1));'',
      ''        int arg_1;'',
      ''        make_unknown(&arg_1, sizeof(arg_1));'',
      ''        f(arg_1, arg_1);'',
      ''    }'']"
proof -
  have s1: "str_nat (Suc 0) = ''1''" by (subst str_nat.simps) (simp add: digit_char_def)
  have ps: "parameters_of clash_def = [parm_decl int_type ''arg_1'', parm_decl int_type []]"
    by (simp add: parameters_of_def clash_def_def example_defs parm_decl_def)
  have names: "arg_names_of clash_def = [''arg_1'', ''arg_1'']"
    by (simp add: arg_names_of_def ps param_step_def Let_def parm_decl_def int_type_def s1)
  have block: "entrypoint_step [''f'' \<mapsto> clash_def] ''f'' [] =
     [''    {'',
      ''        int arg_1;'',
      ''        make_unknown(&arg_1, sizeof(arg_1));'',
      ''        int arg_1;'',
      ''        make_unknown(&arg_1, sizeof(arg_1));'',
      ''        f(arg_1, arg_1);'',
      ''    }'']"
    by (simp add: entrypoint_step_def parameters_of_def [symmetric] ps param_step_def Let_def
        parm_decl_def int_type_def s1)
  from ps names block show ?thesis by simp
qed

section \<open>Properties of the environment-stub generator\<close>

lemma fold_signature_step:
  "params = pre @ filter (\<lambda>c. kind c = PARM_DECL) cs \<Longrightarrow> i = length pre \<Longrightarrow>
   fst (fold signature_step cs (pd, pn, i)) =
     pd @ map (stub_param_decl params) [length pre..<length params]"
proof (induction cs arbitrary: pre pd pn i)
  case Nil
  then show ?case by simp
next
  case (Cons x xs)
  show ?case
  proof (cases "kind x = PARM_DECL")
    case False
    with Cons.prems have "params = pre @ filter (\<lambda>c. kind c = PARM_DECL) xs" by simp
    from Cons.IH [OF this Cons.prems(2)] False show ?thesis
      by (simp add: signature_step_def)
  next
    case True
    with Cons.prems have p: "params = (pre @ [x]) @ filter (\<lambda>c. kind c = PARM_DECL) xs" by simp
    have at: "params ! length pre = x" using p by simp
    have lt: "length pre < length params" using p by simp
    have step: "signature_step x (pd, pn, i) =
        (pd @ [stub_param_decl params (length pre)],
         pn @ [if spelling x \<noteq> [] then spelling x else ''arg'' @ str_nat i], length (pre @ [x]))"
      using True at Cons.prems(2) by (simp add: signature_step_def Let_def stub_param_decl_def)
    have "fst (fold signature_step xs
            (pd @ [stub_param_decl params (length pre)],
             pn @ [if spelling x \<noteq> [] then spelling x else ''arg'' @ str_nat i],
             length (pre @ [x]))) =
          (pd @ [stub_param_decl params (length pre)]) @
            map (stub_param_decl params) [length (pre @ [x])..<length params]"
      by (rule Cons.IH [OF p]) simp
    moreover have "[length pre..<length params] = length pre # [Suc (length pre)..<length params]"
      using lt by (rule upt_conv_Cons)
    ultimately show ?thesis using step by simp
  qed
qed

lemma signature_of_children:
  "fst (fold signature_step (get_children cursor) ([], [], 0)) =
     map (stub_param_decl (parameters_of cursor)) [0..<length (parameters_of cursor)]"
  using fold_signature_step [of "parameters_of cursor" "[]" "get_children cursor" 0 "[]" "[]"]
  by (simp add: parameters_of_def)

lemma add_variadic_signature:
  "add_variadic cursor (fst (fold signature_step (get_children cursor) ([], [], 0))) =
     stub_signature cursor"
  by (simp add: signature_of_children add_variadic_def stub_signature_def is_variadic_decl_def)

lemma check_step_single:
  "check_step x (dc, i) = (dc @ fst (check_step x ([], i)), snd (check_step x ([], i)))"
  by (simp add: check_step_def Let_def)

lemma check_step_append:
  "fold check_step cs (dc, i) =
     (dc @ fst (fold check_step cs ([], i)), snd (fold check_step cs ([], i)))"
proof (induction cs arbitrary: dc i)
  case Nil
  then show ?case by simp
next
  case (Cons x xs)
  let ?ls = "fst (check_step x ([], i))" and ?j = "snd (check_step x ([], i))"
  have "fold check_step (x # xs) (dc, i) = fold check_step xs (dc @ ?ls, ?j)"
    using check_step_single [of x dc i] by simp
  also have "\<dots> = ((dc @ ?ls) @ fst (fold check_step xs ([], ?j)),
                    snd (fold check_step xs ([], ?j)))"
    by (rule Cons.IH)
  finally have a: "fold check_step (x # xs) (dc, i) =
      (dc @ ?ls @ fst (fold check_step xs ([], ?j)), snd (fold check_step xs ([], ?j)))"
    by simp
  have "fold check_step (x # xs) ([], i) = fold check_step xs (?ls, ?j)"
    by simp
  also have "\<dots> = (?ls @ fst (fold check_step xs ([], ?j)), snd (fold check_step xs ([], ?j)))"
    by (rule Cons.IH)
  finally have b: "fold check_step (x # xs) ([], i) =
      (?ls @ fst (fold check_step xs ([], ?j)), snd (fold check_step xs ([], ?j)))" .
  show ?case unfolding a b by simp
qed

lemma emit_stub_lines:
  "emit_stub variadic cursor driver_code =
     driver_code @ [stub_header variadic cursor, randomize_call] @
     check_lines cursor @ return_lines cursor @ [''}'' @ newline]"
proof -
  have "fst (fold check_step (get_children cursor) (dc, 0)) = dc @ check_lines cursor" for dc
    using check_step_append [of "get_children cursor" dc 0] by (simp add: check_lines_def)
  then show ?thesis
    by (simp add: emit_stub_def Let_def stub_header_def randomize_call_def)
qed

lemma fold_stub_step:
  "fold (stub_step variadic ef) cs dc =
     dc @ concat (map (\<lambda>c. emit_stub variadic c []) (filter (is_stubbed ef) cs))"
proof (induction cs arbitrary: dc)
  case Nil
  then show ?case by simp
next
  case (Cons x xs)
  have "emit_stub variadic x dc = dc @ emit_stub variadic x []"
    by (simp add: emit_stub_lines)
  with Cons show ?case by (simp add: stub_step_def is_stubbed_def)
qed

lemma my_printf_children:
  "get_children my_printf_decl =
     [parm_decl (pointer_to char_type) ''fmt'', parm_decl int_type ''i'']"
  by (simp add: my_printf_decl_def function_decl_def)

lemma my_printf_headers:
  "stub_header add_variadic my_printf_decl = ''int my_printf(char * fmt, int i, ...) {''"
  "stub_header (\<lambda>cursor param_decls. param_decls) my_printf_decl = ''int my_printf(char * fmt, int i) {''"
  by (simp_all add: stub_header_def my_printf_children signature_step_def add_variadic_def
      parm_decl_def pointer_to_def char_type_def int_type_def Let_def)
     (simp_all add: my_printf_decl_def function_decl_def int_type_def)


text \<open>The header of a stub in generate\_driver\_2.py carries the whole signature.\<close>

lemma module_stub_header:
  "stub_header add_variadic cursor =
     type_spelling (result_type cursor) @ '' '' @ spelling cursor @ ''('' @
     join '', '' (stub_signature cursor) @ '') {''"
  by (simp add: stub_header_def add_variadic_signature)

text \<open>In standalone\_driver\_gen.py the parameters are all there is.\<close>

lemma standalone_stub_header:
  "stub_header (\<lambda>cursor param_decls. param_decls) cursor =
     type_spelling (result_type cursor) @ '' '' @ spelling cursor @ ''('' @
     join '', '' (map (stub_param_decl (parameters_of cursor)) [0..<length (parameters_of cursor)]) @
     '') {''"
  by (simp add: stub_header_def signature_of_children)

lemma randomize_step_append:
  "fold (randomize_step tu) gv dc = dc @ fold (randomize_step tu) gv []"
proof (induction gv arbitrary: dc)
  case Nil
  then show ?case by simp
next
  case (Cons v vs)
  have "fold (randomize_step tu) vs (randomize_step tu v dc) =
        randomize_step tu v dc @ fold (randomize_step tu) vs []"
    by (rule Cons.IH)
  moreover have "fold (randomize_step tu) vs (randomize_step tu v []) =
        randomize_step tu v [] @ fold (randomize_step tu) vs []"
    by (rule Cons.IH)
  moreover have "randomize_step tu v dc = dc @ randomize_step tu v []"
    by (simp add: randomize_step_def split: option.splits)
  ultimately show ?case by simp
qed

lemma driver_2_lines_stubs:
  "driver_2_lines variadic tu gv ef =
     stub_prelude @ randomize_routine tu gv @
     concat (map (\<lambda>c. emit_stub variadic c []) (filter (is_stubbed ef) (walk_preorder tu)))"
  using randomize_step_append [of tu gv "stub_prelude @ [''void randomize_all_global_vars() {'']"]
  by (simp add: driver_2_lines_def Let_def fold_stub_step randomize_routine_def)

text \<open>
  Claim C4 fails in standalone\_driver\_gen.py: for the variadic declaration
  \<open>int my_printf(char* fmt, int i, ...);\<close> generate\_driver\_2.py emits the header with the
  trailing \<open>...\<close>, the copy of the function in standalone\_driver\_gen.py emits it without.
\<close>

theorem variadic_marker_dropped:
  "is_stubbed {''my_printf''} my_printf_decl \<and> is_variadic_decl my_printf_decl \<and>
   generate_driver_2 (parsed my_printf_unit) ''pre.c'' [] {''my_printf''} =
     join newline
       (stub_prelude @
        [''void randomize_all_global_vars() {'', ''}'' @ newline,
         ''int my_printf(char * fmt, int i, ...) {'',
         ''    randomize_all_global_vars();'',
         ''    check_initialized(fmt);'',
         ''    check_initialized(*fmt);'',
         ''    make_unknown(fmt, sizeof(*fmt));'',
         ''    check_initialized(i);'',
         ''    int out;'',
         ''    make_unknown(&out, sizeof(out));'',
         ''    return out;'',
         ''}'' @ newline]) \<and>
   generate_driver_2_standalone (parsed my_printf_unit) ''pre.c'' [] {''my_printf''} =
     join newline
       (stub_prelude @
        [''void randomize_all_global_vars() {'', ''}'' @ newline,
         ''int my_printf(char * fmt, int i) {'',
         ''    randomize_all_global_vars();'',
         ''    check_initialized(fmt);'',
         ''    check_initialized(*fmt);'',
         ''    make_unknown(fmt, sizeof(*fmt));'',
         ''    check_initialized(i);'',
         ''    int out;'',
         ''    make_unknown(&out, sizeof(out));'',
         ''    return out;'',
         ''}'' @ newline])"
proof -
  have st: "is_stubbed {''my_printf''} my_printf_decl"
    by (simp add: is_stubbed_def my_printf_decl_def function_decl_def)
  have va: "is_variadic_decl my_printf_decl"
    by (simp add: is_variadic_decl_def my_printf_decl_def function_decl_def)
  have walk: "filter (is_stubbed {''my_printf''}) (walk_preorder my_printf_unit) = [my_printf_decl]"
    by (simp add: my_printf_unit_def translation_unit_def is_stubbed_def my_printf_decl_def
        function_decl_def parm_decl_def)
  have chk: "check_lines my_printf_decl =
      [''    check_initialized(fmt);'', ''    check_initialized(*fmt);'',
       ''    make_unknown(fmt, sizeof(*fmt));'', ''    check_initialized(i);'']"
    by (simp add: check_lines_def my_printf_children check_step_def Let_def parm_decl_def
        pointer_to_def char_type_def int_type_def get_pointee_def)
  have ret: "return_lines my_printf_decl =
      [''    int out;'', ''    make_unknown(&out, sizeof(out));'', ''    return out;'']"
    by (simp add: return_lines_def my_printf_decl_def function_decl_def int_type_def Let_def)
  have rr: "randomize_routine my_printf_unit [] =
      [''void randomize_all_global_vars() {'', ''}'' @ newline]"
    by (simp add: randomize_routine_def)
  have "driver_2_lines variadic my_printf_unit [] {''my_printf''} =
      stub_prelude @
        [''void randomize_all_global_vars() {'', ''}'' @ newline,
         stub_header variadic my_printf_decl, ''    randomize_all_global_vars();'',
         ''    check_initialized(fmt);'', ''    check_initialized(*fmt);'',
         ''    make_unknown(fmt, sizeof(*fmt));'', ''    check_initialized(i);'',
         ''    int out;'', ''    make_unknown(&out, sizeof(out));'', ''    return out;'',
         ''}'' @ newline]" for variadic
    by (simp add: driver_2_lines_stubs walk emit_stub_lines chk ret rr randomize_call_def)
  then show ?thesis
    using st va
    by (simp add: generate_driver_2_def generate_driver_2_standalone_def driver_2_def
        parsed_def my_printf_headers)
qed


section \<open>Properties of the final assembly\<close>

lemma split_from_nonempty: "split_from sep cur s \<noteq> []"
  by (induction sep cur s rule: split_from.induct) (subst split_from.simps, simp)



lemma split_from_found:
  "sep \<noteq> [] \<Longrightarrow> 2 \<le> length (split_from sep cur (pre @ sep @ post))"
proof (induction pre arbitrary: cur)
  case Nil
  have "split_from sep cur (sep @ post) = cur # split_from sep [] post"
    using Nil by (subst split_from.simps) simp
  moreover have "1 \<le> length (split_from sep [] post)"
    using split_from_nonempty [of sep "[]" post] by (cases "split_from sep [] post") simp_all
  ultimately show ?case by simp
next
  case (Cons c pre)
  show ?case
  proof (cases "take (length sep) (c # pre @ sep @ post) = sep")
    case True
    then have "split_from sep cur ((c # pre) @ sep @ post) =
        cur # split_from sep [] (drop (length sep) (c # pre @ sep @ post))"
      using Cons.prems by (subst split_from.simps) simp
    moreover have "1 \<le> length (split_from sep [] (drop (length sep) (c # pre @ sep @ post)))"
      using split_from_nonempty [of sep "[]" "drop (length sep) (c # pre @ sep @ post)"]
      by (cases "split_from sep [] (drop (length sep) (c # pre @ sep @ post))") simp_all
    ultimately show ?thesis by simp
  next
    case False
    then have "split_from sep cur ((c # pre) @ sep @ post) =
        split_from sep (cur @ [c]) (pre @ sep @ post)"
      by (subst split_from.simps) simp
    with Cons.IH [OF Cons.prems, of "cur @ [c]"] show ?thesis by simp
  qed
qed

lemma join_contains:
  "x \<in> set xs \<Longrightarrow> \<exists>pre post. join sep xs = pre @ x @ post"
proof (induction sep xs rule: join.induct)
  case (1 sep)
  then show ?case by simp
next
  case (2 sep y)
  then have "join sep [y] = [] @ x @ []" by simp
  then show ?case by blast
next
  case (3 sep a b bs)
  show ?case
  proof (cases "x = a")
    case True
    then have "join sep (a # b # bs) = [] @ x @ (sep @ join sep (b # bs))" by simp
    then show ?thesis by blast
  next
    case False
    with 3 obtain pre post where "join sep (b # bs) = pre @ x @ post" by auto
    then have "join sep (a # b # bs) = (a @ sep @ pre) @ x @ post" by simp
    then show ?thesis by blast
  qed
qed




lemma generate_driver_has_main:
  assumes "path_exists fe p" and "parse fe p = Some tu"
  shows "\<exists>pre post. generate_driver fe base p eps = pre @ ''int main() {'' @ post"
proof -
  have "''int main() {'' \<in> set (driver_prelude base @
          concat (map (entry_block (function_decls tu)) eps) @ [''    return 0;'', ''}''])"
    by (simp add: driver_prelude_def)
  then have "\<exists>pre post. join newline (driver_prelude base @
          concat (map (entry_block (function_decls tu)) eps) @ [''    return 0;'', ''}'']) =
        pre @ ''int main() {'' @ post"
    by (rule join_contains)
  with assms show ?thesis
    by (simp add: generate_driver_def fold_entrypoint_step)
qed



section \<open>Properties of the preprocessor options\<close>

lemma fold_option_step:
  "args = pre @ xs \<Longrightarrow>
   fold (option_step [''-isystem'', ''-I'', ''-include'', ''-D'', ''-U''] args)
        (enumerate (length pre) xs) acc =
     acc @ concat (map (kept_at args) [length pre..<length args])"
proof (induction xs arbitrary: pre acc)
  case Nil
  then show ?case by simp
next
  case (Cons x xs)
  have at: "args ! length pre = x" using Cons.prems by simp
  have lt: "length pre < length args" using Cons.prems by simp
  have step: "option_step [''-isystem'', ''-I'', ''-include'', ''-D'', ''-U''] args (length pre, x) acc =
      acc @ kept_at args (length pre)"
    using at by (auto simp add: option_step_def kept_at_def Let_def startswith_def)
  have "args = (pre @ [x]) @ xs" using Cons.prems by simp
  then have "fold (option_step [''-isystem'', ''-I'', ''-include'', ''-D'', ''-U''] args)
        (enumerate (length (pre @ [x])) xs) (acc @ kept_at args (length pre)) =
     (acc @ kept_at args (length pre)) @
       concat (map (kept_at args) [length (pre @ [x])..<length args])"
    by (rule Cons.IH)
  moreover have "[length pre..<length args] = length pre # [Suc (length pre)..<length args]"
    using lt by (rule upt_conv_Cons)
  ultimately show ?case using step by simp
qed

text \<open>
  preprocess\_c\_file.py keeps exactly what the specification lists, position by position.
\<close>

lemma preprocessor_options_kept:
  "preprocessor_options args = concat (map (kept_at args) [0..<length args])"
  using fold_option_step [of args "[]" args "[]"] by (simp add: preprocessor_options_def)

text \<open>
  Two consequences of working position by position: the argument after \<open>-isystem\<close> is
  looked at again on its own turn, and a flag \<open>-I\<close> written apart from its directory keeps
  the flag and loses the directory.
\<close>

lemma preprocessor_options_positions:
  "preprocessor_options [''-isystem'', ''-Ifoo'', ''-I'', ''dir'', ''-isystem''] =
     [''-isystem'', ''-Ifoo'', ''-Ifoo'', ''-I'']"
  by (simp add: preprocessor_options_def option_step_def startswith_def enumerate_eq_zip
      upt_conv_Cons Let_def)

text \<open>
  Claim C9 fails in main.py: its copy of the filter tests only \<open>-isystem\<close> in the \<open>elif\<close>,
  so \<open>-include config.h\<close> is dropped from the preprocessor's arguments, while
  preprocess\_c\_file.py keeps it.
\<close>

theorem include_dropped_in_main:
  "preprocessor_options include_args = [''-include'', ''config.h'', ''-DMY_MACRO''] \<and>
   preprocessor_options_main include_args = [''-DMY_MACRO''] \<and>
   clang_command include_args ''test.c'' =
     [''clang'', ''-E'', ''-P'', ''-include'', ''config.h'', ''-DMY_MACRO'', ''test.c''] \<and>
   clang_command_main include_args ''test.c'' =
     [''clang'', ''-E'', ''-P'', ''-DMY_MACRO'', ''test.c'']"
  by (simp add: clang_command_def clang_command_main_def preprocessor_options_def
      preprocessor_options_main_def include_args_def option_step_def startswith_def
      enumerate_eq_zip upt_conv_Cons Let_def)

section \<open>Synthesized names\<close>

lemma digit_value_char: "d < 10 \<Longrightarrow> digit_value (digit_char d) = d"
  by (simp add: digit_value_def digit_char_def)

lemma decimal_value_str_nat: "decimal_value (str_nat n) = n"
proof (induction n rule: str_nat.induct)
  case (1 n)
  show ?case
  proof (cases "n < 10")
    case True
    then show ?thesis
      by (subst str_nat.simps) (simp add: decimal_value_def digit_value_char)
  next
    case False
    with 1 have "decimal_value (str_nat (n div 10)) = n div 10" by simp
    with False show ?thesis
      by (subst str_nat.simps) (simp add: decimal_value_def digit_value_char)
  qed
qed

text \<open>
  The names synthesized for two different positions differ, so a clash within a block
  always involves a name written in the source.
\<close>

lemma synthesized_names_differ:
  "i \<noteq> j \<Longrightarrow> ''arg_'' @ str_nat i \<noteq> ''arg_'' @ str_nat j"
  using decimal_value_str_nat [of i] decimal_value_str_nat [of j] by auto

lemma unnamed_parameters_distinct:
  assumes "\<forall>c \<in> set params. spelling c = []"
  shows "distinct (map (param_name_at params) [0..<length params])"
proof -
  have eq: "map (param_name_at params) [0..<length params] =
        map (\<lambda>i. ''arg_'' @ str_nat i) [0..<length params]"
    using assms by (simp add: param_name_at_def)
  have "inj_on (\<lambda>i. ''arg_'' @ str_nat i) (set [0..<length params])"
    using synthesized_names_differ by (auto simp add: inj_on_def)
  then have "distinct (map (\<lambda>i. ''arg_'' @ str_nat i) [0..<length params])"
    by (simp add: distinct_map)
  then show ?thesis unfolding eq .
qed

section \<open>A driver from end to end\<close>

text \<open>The assembled driver of a small unit, piece by piece.\<close>

lemma small_unit_parts:
  "find_globals_and_externs (parsed small_unit) ''pre.c'' [''run''] =
     \<lparr>global_vars = {}, external_funcs = {''ext''}\<rparr>"
  "find_entrypoints (parsed small_unit) ''pre.c'' [''run''] = {''run''}"
  by (auto simp add: find_globals_and_externs_def usage_defs is_global_var_def entrypoint_defs
      small_unit_def example_defs usage_example_defs function_decl_def parm_decl_def)

lemma small_unit_part2:
  "generate_driver (parsed small_unit) ''app.c'' ''pre.c'' [''run''] =
     join newline
       (driver_prelude ''app.c'' @
        [''    {'',
         ''        int n;'',
         ''        make_unknown(&n, sizeof(n));'',
         ''        run(n);'',
         ''    }'',
         ''    return 0;'',
         ''}''])"
  by (simp add: generate_driver_def parsed_def function_decls_def small_unit_def
      translation_unit_def function_def_def function_decl_def parm_decl_def compound_stmt_def
      decl_ref_expr_def func_prototype_def entrypoint_step_def param_step_def Let_def
      int_type_def)

lemma split_step_skip:
  "s \<noteq> [] \<Longrightarrow> take (length sep) s \<noteq> sep \<Longrightarrow>
   split_from sep cur s = split_from sep (cur @ [hd s]) (tl s)"
  by (subst split_from.simps) simp

lemma split_step_hit:
  "s \<noteq> [] \<Longrightarrow> sep \<noteq> [] \<Longrightarrow> take (length sep) s = sep \<Longrightarrow>
   split_from sep cur s = cur # split_from sep [] (drop (length sep) s)"
  by (subst split_from.simps) simp

lemma split_step_end: "split_from sep cur [] = [cur]"
  by (subst split_from.simps) simp

lemma small_unit_body:
  "split_str (generate_driver (parsed small_unit) ''app.c'' ''pre.c'' [''run'']) ''int main() {'' ! 1 =
     newline @ join newline
        [''    {'',
         ''        int n;'',
         ''        make_unknown(&n, sizeof(n));'',
         ''        run(n);'',
         ''    }'',
         ''    return 0;'',
         ''}'']"
  unfolding small_unit_part2
  by (simp add: split_str_def driver_prelude_def newline_def split_step_skip split_step_hit split_step_end)


lemma small_unit_driver:
  "main_steps example_iter (parsed small_unit) ''app.c'' ''pre.c'' [''run''] =
     Inr (''#include '' @ [CHR 0x22] @ ''app.c'' @ [CHR 0x22] @ newline @
          generate_driver_2 (parsed small_unit) ''pre.c'' [] {''ext''} @
          main_opening @
          newline @ join newline
            [''    {'',
             ''        int n;'',
             ''        make_unknown(&n, sizeof(n));'',
             ''        run(n);'',
             ''    }'',
             ''    return 0;'',
             ''}''])"
proof -
  have "2 \<le> length (split_str (generate_driver (parsed small_unit) ''app.c'' ''pre.c'' [''run''])
                       ''int main() {'')"
    using generate_driver_has_main [of "parsed small_unit" "''pre.c''" small_unit "''app.c''" "[''run'']"]
      split_from_found [of "''int main() {''"]
    by (auto simp add: parsed_def split_str_def)
  moreover have "split_str (generate_driver (parsed small_unit) ''app.c'' ''pre.c'' [''run''])
                   ''int main() {'' ! Suc 0 =
     newline @ join newline
        [''    {'',
         ''        int n;'',
         ''        make_unknown(&n, sizeof(n));'',
         ''        run(n);'',
         ''    }'',
         ''    return 0;'',
         ''}'']"
    using small_unit_body by simp
  ultimately show ?thesis
    by (simp add: main_steps_def Let_def small_unit_parts example_iter_def assemble_def
        main_opening_def)
qed

end
